theory Spec2Isabelle
  imports Complex_Main
begin

section \<open>Data of the benchmark harness\<close>

text \<open>
  The harness of \<^verbatim>\<open>tutorial/benchmark_in1kmop.py\<close> wires a benchmark of the
  IN1K/MOP suite to one of three optimizers, runs it, and dumps per-run statistics.
  Numpy arrays are nested lists; Python floats are idealised as reals (only the literals
  of the source and the values handed back by the collaborators occur, no float
  arithmetic is performed by the harness itself); Python ints are \<open>int\<close>.
\<close>

type_synonym ndarray = "real list list"
type_synonym candidates = "int list list"

text \<open>
  The two \<^verbatim>\<open>raise NotImplementedError\<close> statements of the source, told apart by the
  place that raises: line 59 (\<^verbatim>\<open>get_benchmark_settings\<close>) and line 141 (the driver's
  \<^verbatim>\<open>else\<close> branch over \<^verbatim>\<open>args.moea\<close>).
\<close>

datatype error = UnsupportedObjectiveCount | UnsupportedAlgorithm

subsection \<open>Reference directions\<close>

text \<open>
  Modelled from the spec: \<^verbatim>\<open>get_reference_directions("das-dennis", n_obj, n_partitions)\<close>
  is imported from the optimizer library and is not among the sources. The spec describes
  it as the deterministic uniform lattice over the objective simplex for a partition
  count \<open>p\<close>: the points \<open>(k\<^sub>1 / p, \<dots>, k\<^sub>n / p)\<close> with natural \<open>k\<^sub>i\<close> summing to \<open>p\<close>.
  \<open>das_dennis_recursion p beta k\<close> lists the tails of \<open>k\<close> coordinates whose numerators
  sum to \<open>beta\<close>; the last coordinate takes what is left.
\<close>

fun das_dennis_recursion :: "nat \<Rightarrow> nat \<Rightarrow> nat \<Rightarrow> ndarray" where
  "das_dennis_recursion p beta 0 = []"
| "das_dennis_recursion p beta (Suc 0) = [[real beta / real p]]"
| "das_dennis_recursion p beta (Suc (Suc k)) =
     concat (map (\<lambda>i. map (\<lambda>v. (real i / real p) # v)
                           (das_dennis_recursion p (beta - i) (Suc k)))
                 [0..<Suc beta])"

definition get_reference_directions :: "int \<Rightarrow> nat \<Rightarrow> ndarray" where
  "get_reference_directions n_dim n_partitions =
     das_dennis_recursion n_partitions n_partitions (nat n_dim)"

subsection \<open>Settings\<close>

text \<open>
  \<^verbatim>\<open>get_benchmark_settings(n_obj)\<close>, lines 48 to 63: the generation budget is the
  constant 100, the partition count is chosen by the objective count, and the population
  size is \<^verbatim>\<open>ref_dirs.shape[0]\<close>. The result is \<open>(pop_size, n_gen, ref_dirs)\<close>.
\<close>

definition get_benchmark_settings :: "int \<Rightarrow> error + (nat \<times> nat \<times> ndarray)" where
  "get_benchmark_settings n_obj =
     (let n_gen = 100 in
      if n_obj = 2 then
        (let ref_dirs = get_reference_directions n_obj 99 in Inr (length ref_dirs, n_gen, ref_dirs))
      else if n_obj = 3 then
        (let ref_dirs = get_reference_directions n_obj 13 in Inr (length ref_dirs, n_gen, ref_dirs))
      else if n_obj = 4 then
        (let ref_dirs = get_reference_directions n_obj 7 in Inr (length ref_dirs, n_gen, ref_dirs))
      else Inl UnsupportedObjectiveCount)"

subsection \<open>Genetic operators and algorithms\<close>

datatype repair = RoundingRepair
datatype vtype = Vtype_int
datatype sampling = IntegerRandomSampling
datatype crossover = SBX (sbx_prob: real) (sbx_eta: real) repair vtype
datatype mutation = PM (pm_prob: real) (pm_eta: real) repair vtype

text \<open>
  A keyword parameter with a default is an optional argument: \<open>None\<close> when the caller
  leaves it out, and \<open>dflt d\<close> then supplies the default \<open>d\<close> of the signature.
\<close>

definition dflt :: "'a \<Rightarrow> 'a option \<Rightarrow> 'a" where
  "dflt d x = (case x of None \<Rightarrow> d | Some v \<Rightarrow> v)"

text \<open>\<^verbatim>\<open>get_genetic_operator\<close>, lines 37 to 45.\<close>

definition get_genetic_operator ::
  "real option \<Rightarrow> real option \<Rightarrow> real option \<Rightarrow> real option \<Rightarrow> sampling \<times> crossover \<times> mutation" where
  "get_genetic_operator crx_prob crx_eta mut_prob mut_eta =
     (let sampling = IntegerRandomSampling;
          crossover = SBX (dflt 1.0 crx_prob) (dflt 30.0 crx_eta) RoundingRepair Vtype_int;
          mutation = PM (dflt 0.9 mut_prob) (dflt 20.0 mut_eta) RoundingRepair Vtype_int
      in (sampling, crossover, mutation))"

text \<open>
  The three optimizer objects, with the arguments their constructors are given. The
  source passes \<^verbatim>\<open>eliminate_duplicates=True\<close> to \<^verbatim>\<open>NSGA2\<close> and \<^verbatim>\<open>NSGA3\<close> and no such
  argument to \<^verbatim>\<open>MOEAD\<close>.
\<close>

datatype algorithm =
    NSGA2 nat sampling crossover mutation bool
  | MOEAD ndarray nat real sampling crossover mutation
  | NSGA3 nat ndarray sampling crossover mutation bool

text \<open>\<^verbatim>\<open>nsga2\<close>, lines 66 to 76.\<close>

definition nsga2 ::
  "nat \<Rightarrow> real option \<Rightarrow> real option \<Rightarrow> real option \<Rightarrow> real option \<Rightarrow> algorithm" where
  "nsga2 pop_size crx_prob crx_eta mut_prob mut_eta =
     (case get_genetic_operator (Some (dflt 1.0 crx_prob)) (Some (dflt 30.0 crx_eta))
                                (Some (dflt 0.9 mut_prob)) (Some (dflt 20.0 mut_eta)) of
        (sampling, crossover, mutation) \<Rightarrow> NSGA2 pop_size sampling crossover mutation True)"

text \<open>\<^verbatim>\<open>moead\<close>, lines 79 to 90.\<close>

definition moead ::
  "ndarray \<Rightarrow> real option \<Rightarrow> real option \<Rightarrow> real option \<Rightarrow> real option \<Rightarrow> nat option \<Rightarrow> real option
     \<Rightarrow> algorithm" where
  "moead ref_dirs crx_prob crx_eta mut_prob mut_eta neighborhood_size prob_neighbor_mating =
     (case get_genetic_operator (Some (dflt 1.0 crx_prob)) (Some (dflt 20.0 crx_eta))
                                (Some (dflt 0.9 mut_prob)) (Some (dflt 20.0 mut_eta)) of
        (sampling, crossover, mutation) \<Rightarrow>
          MOEAD ref_dirs (dflt 20 neighborhood_size) (dflt 0.9 prob_neighbor_mating)
                sampling crossover mutation)"

text \<open>\<^verbatim>\<open>nsga3\<close>, lines 93 to 104.\<close>

definition nsga3 ::
  "nat \<Rightarrow> ndarray \<Rightarrow> real option \<Rightarrow> real option \<Rightarrow> real option \<Rightarrow> real option \<Rightarrow> algorithm" where
  "nsga3 pop_size ref_dirs crx_prob crx_eta mut_prob mut_eta =
     (case get_genetic_operator (Some (dflt 1.0 crx_prob)) (Some (dflt 30.0 crx_eta))
                                (Some (dflt 0.9 mut_prob)) (Some (dflt 20.0 mut_eta)) of
        (sampling, crossover, mutation) \<Rightarrow>
          NSGA3 pop_size ref_dirs sampling crossover mutation True)"

text \<open>Readers of an optimizer object.\<close>

fun alg_crossover :: "algorithm \<Rightarrow> crossover" where
  "alg_crossover (NSGA2 _ _ c _ _) = c"
| "alg_crossover (MOEAD _ _ _ _ c _) = c"
| "alg_crossover (NSGA3 _ _ _ c _ _) = c"

fun alg_mutation :: "algorithm \<Rightarrow> mutation" where
  "alg_mutation (NSGA2 _ _ _ m _) = m"
| "alg_mutation (MOEAD _ _ _ _ _ m) = m"
| "alg_mutation (NSGA3 _ _ _ _ m _) = m"

text \<open>
  Whether the constructor call asks for duplicate elimination: the flag passed to
  \<^verbatim>\<open>NSGA2\<close> and \<^verbatim>\<open>NSGA3\<close>; \<^verbatim>\<open>MOEAD\<close> is given none.
\<close>

fun eliminate_duplicates :: "algorithm \<Rightarrow> bool" where
  "eliminate_duplicates (NSGA2 _ _ _ _ e) = e"
| "eliminate_duplicates (MOEAD _ _ _ _ _ _) = False"
| "eliminate_duplicates (NSGA3 _ _ _ _ _ e) = e"

section \<open>The driver\<close>

subsection \<open>Collaborators\<close>

text \<open>
  A benchmark object of the suite, as far as the harness reads it: the search space
  (\<^verbatim>\<open>search_space.n_var\<close>, \<^verbatim>\<open>search_space.lb\<close>, \<^verbatim>\<open>search_space.ub\<close>), the
  objective count \<^verbatim>\<open>evaluator.n_objs\<close>, and the two methods the harness calls,
  \<^verbatim>\<open>evaluate(x, true_eval)\<close> and \<^verbatim>\<open>calc_perf_indicator(x, name)\<close>. The suite
  itself (\<^verbatim>\<open>in1kmop(pid)\<close>) is a parameter of the driver. The collaborators are taken
  to return; what they raise is outside the harness.
\<close>

record benchmark =
  search_space_n_var :: nat
  search_space_lb :: "int list"
  search_space_ub :: "int list"
  evaluator_n_objs :: int
  evaluate :: "candidates \<Rightarrow> bool \<Rightarrow> ndarray"
  calc_perf_indicator :: "candidates \<Rightarrow> string \<Rightarrow> real"

text \<open>\<^verbatim>\<open>In1KMOPProblem.__init__\<close>, lines 21 to 28.\<close>

record problem =
  n_var :: nat
  n_obj :: int
  n_constr :: nat
  xl :: "int list"
  xu :: "int list"
  benchmark :: benchmark

definition In1KMOPProblem :: "benchmark \<Rightarrow> problem" where
  "In1KMOPProblem b =
     \<lparr>n_var = search_space_n_var b, n_obj = evaluator_n_objs b, n_constr = 0,
      xl = search_space_lb b, xu = search_space_ub b, benchmark = b\<rparr>"

text \<open>
  What the program does to the outside, in the order it does it. Each constructor is one
  place of the source: \<open>Instantiate\<close> lines 128 and 129, \<open>Resolve\<close> a returning call
  of line 131 with the population size and the generation budget, \<open>Print\<close> line 132,
  \<open>Build\<close> lines 134 to 139, \<open>Minimize\<close> line 143, \<open>Evaluate\<close> every call of
  \<^verbatim>\<open>benchmark.evaluate\<close> with its \<^verbatim>\<open>true_eval\<close> argument (lines 32 and 145),
  \<open>Indicator\<close> line 148, \<open>Dump\<close> lines 164 and 165.
\<close>

datatype event =
    Instantiate int
  | Resolve int nat nat
  | Print nat
  | Build int algorithm
  | Minimize int int
  | Evaluate candidates bool
  | Indicator candidates string
  | Dump string

definition benchmark_evaluate :: "benchmark \<Rightarrow> candidates \<Rightarrow> bool \<Rightarrow> event \<times> ndarray" where
  "benchmark_evaluate b x true_eval = (Evaluate x true_eval, evaluate b x true_eval)"

text \<open>\<^verbatim>\<open>In1KMOPProblem._evaluate\<close>, lines 30 to 34; the result is \<^verbatim>\<open>out["F"]\<close>.\<close>

definition In1KMOPProblem_evaluate :: "problem \<Rightarrow> candidates \<Rightarrow> event \<times> ndarray" where
  "In1KMOPProblem_evaluate self x = benchmark_evaluate (benchmark self) x True"

text \<open>
  The optimizer engine is a collaborator too. All the harness knows of a run of
  \<^verbatim>\<open>minimize(problem, algorithm, ('n_gen', n_gen))\<close> is that it may ask the problem to
  evaluate batches of candidates, each next step depending on the objectives it got back,
  and that it ends with a final candidate set \<^verbatim>\<open>res.X\<close>. A \<open>search\<close> is such a run;
  the driver's parameter \<open>minimize\<close> gives the search for a problem, an algorithm, a
  generation budget and the repeat at which it is called (standing for the random state).
\<close>

datatype search = Result candidates | Ask candidates "ndarray \<Rightarrow> search"

primrec run_search :: "problem \<Rightarrow> search \<Rightarrow> event list \<times> candidates" where
  "run_search problem (Result X) = ([], X)"
| "run_search problem (Ask x k) =
     (case In1KMOPProblem_evaluate problem x of
        (ev, out_F) \<Rightarrow> (case run_search problem (k out_F) of (evs, X) \<Rightarrow> (ev # evs, X)))"

subsection \<open>One repeat\<close>

record run_stats =
  run :: int
  F :: ndarray
  HV :: real

text \<open>The chain over \<^verbatim>\<open>args.moea\<close>, lines 134 to 141; the factory functions get their defaults.\<close>

definition select_algorithm :: "string \<Rightarrow> nat \<Rightarrow> ndarray \<Rightarrow> error + algorithm" where
  "select_algorithm moea pop_size ref_dirs =
     (if moea = ''nsga2'' then Inr (nsga2 pop_size None None None None)
      else if moea = ''moead'' then Inr (moead ref_dirs None None None None None None)
      else if moea = ''nsga3'' then Inr (nsga3 pop_size ref_dirs None None None None)
      else Inl UnsupportedAlgorithm)"

text \<open>
  The body of the inner loop, lines 126 to 150, up to the append: the events of the repeat
  and either the exception that ends it or its \<^verbatim>\<open>run_stats\<close>. The debug branch is dead
  (\<^verbatim>\<open>_DEBUG = False\<close>).
\<close>

definition run_body ::
  "(int \<Rightarrow> benchmark) \<Rightarrow> (problem \<Rightarrow> algorithm \<Rightarrow> nat \<Rightarrow> int \<Rightarrow> search) \<Rightarrow> string \<Rightarrow> int \<Rightarrow> int
     \<Rightarrow> event list \<times> (error + run_stats)" where
  "run_body in1kmop minimize moea pid r =
     (let b = in1kmop pid;
          problem = In1KMOPProblem b
      in case get_benchmark_settings (n_obj problem) of
           Inl e \<Rightarrow> ([Instantiate pid], Inl e)
         | Inr (pop_size, n_gen, ref_dirs) \<Rightarrow>
            (case select_algorithm moea pop_size ref_dirs of
               Inl e \<Rightarrow> ([Instantiate pid, Resolve pid pop_size n_gen, Print pop_size], Inl e)
             | Inr algorithm \<Rightarrow>
                (case run_search problem (minimize problem algorithm n_gen r) of
                   (evs, X) \<Rightarrow>
                     (case benchmark_evaluate b X True of
                        (ev, f) \<Rightarrow>
                          (let hv = calc_perf_indicator b X ''hv'' in
                           ([Instantiate pid, Resolve pid pop_size n_gen, Print pop_size,
                             Build pid algorithm, Minimize pid r] @ evs @ [ev, Indicator X ''hv''],
                            Inr \<lparr>run = r, F = f, HV = hv\<rparr>))))))"

subsection \<open>The two loops\<close>

text \<open>
  The state of the program: the list \<^verbatim>\<open>experiment_stats\<close> (created once, line 123),
  the files written so far, and the events so far.
\<close>

record state =
  experiment_stats :: "run_stats list"
  files :: "string \<rightharpoonup> run_stats list"
  trace :: "event list"

text \<open>\<^verbatim>\<open>for r in range(1, args.runs+1)\<close>, lines 125 to 150. An exception ends the loop.\<close>

fun run_loop ::
  "(int \<Rightarrow> benchmark) \<Rightarrow> (problem \<Rightarrow> algorithm \<Rightarrow> nat \<Rightarrow> int \<Rightarrow> search) \<Rightarrow> string \<Rightarrow> int \<Rightarrow> int list
     \<Rightarrow> state \<Rightarrow> state \<times> error option" where
  "run_loop in1kmop minimize moea pid [] s = (s, None)"
| "run_loop in1kmop minimize moea pid (r # rs) s =
     (case run_body in1kmop minimize moea pid r of
        (evs, Inl e) \<Rightarrow> (s\<lparr>trace := trace s @ evs\<rparr>, Some e)
      | (evs, Inr stats) \<Rightarrow>
          run_loop in1kmop minimize moea pid rs
            (s\<lparr>experiment_stats := experiment_stats s @ [stats], trace := trace s @ evs\<rparr>))"

text \<open>Python's \<^verbatim>\<open>str\<close> of an integer, for the file name.\<close>

definition digit :: "nat \<Rightarrow> char" where
  "digit n = ''0123456789'' ! n"

fun str_nat :: "nat \<Rightarrow> string" where
  "str_nat n = (if n < 10 then [digit n] else str_nat (n div 10) @ [digit (n mod 10)])"

definition str_int :: "int \<Rightarrow> string" where
  "str_int i = (if i < 0 then CHR ''-'' # str_nat (nat (- i)) else str_nat (nat i))"

definition file_name :: "int \<Rightarrow> string \<Rightarrow> string" where
  "file_name pid moea = ''in1kmop'' @ str_int pid @ ''_'' @ moea @ ''.json''"

text \<open>
  \<^verbatim>\<open>for pid in range(1, 10)\<close>, lines 124 to 165: the repeats of the problem, then the
  dump of \<^verbatim>\<open>experiment_stats\<close> into the file of the problem.
\<close>

fun pid_loop ::
  "(int \<Rightarrow> benchmark) \<Rightarrow> (problem \<Rightarrow> algorithm \<Rightarrow> nat \<Rightarrow> int \<Rightarrow> search) \<Rightarrow> string \<Rightarrow> int \<Rightarrow> int list
     \<Rightarrow> state \<Rightarrow> state \<times> error option" where
  "pid_loop in1kmop minimize moea runs [] s = (s, None)"
| "pid_loop in1kmop minimize moea runs (pid # pids) s =
     (case run_loop in1kmop minimize moea pid [1..runs] s of
        (s', Some e) \<Rightarrow> (s', Some e)
      | (s', None) \<Rightarrow>
          pid_loop in1kmop minimize moea runs pids
            (s'\<lparr>files := (files s')(file_name pid moea \<mapsto> experiment_stats s'),
                trace := trace s' @ [Dump (file_name pid moea)]\<rparr>))"

definition main ::
  "(int \<Rightarrow> benchmark) \<Rightarrow> (problem \<Rightarrow> algorithm \<Rightarrow> nat \<Rightarrow> int \<Rightarrow> search) \<Rightarrow> string \<Rightarrow> int
     \<Rightarrow> state \<times> error option" where
  "main in1kmop minimize moea runs =
     pid_loop in1kmop minimize moea runs [1..9]
       \<lparr>experiment_stats = [], files = Map.empty, trace = []\<rparr>"

subsection \<open>Observations on a trace\<close>

fun is_Instantiate :: "int \<Rightarrow> event \<Rightarrow> bool" where
  "is_Instantiate pid (Instantiate p) = (p = pid)"
| "is_Instantiate pid _ = False"

fun is_Resolve :: "int \<Rightarrow> event \<Rightarrow> bool" where
  "is_Resolve pid (Resolve p _ _) = (p = pid)"
| "is_Resolve pid _ = False"

fun is_Build :: "int \<Rightarrow> event \<Rightarrow> bool" where
  "is_Build pid (Build p _) = (p = pid)"
| "is_Build pid _ = False"

fun is_Minimize :: "int \<Rightarrow> event \<Rightarrow> bool" where
  "is_Minimize pid (Minimize p _) = (p = pid)"
| "is_Minimize pid _ = False"

definition count_events :: "(event \<Rightarrow> bool) \<Rightarrow> event list \<Rightarrow> nat" where
  "count_events P t = length (filter P t)"

subsection \<open>An example environment\<close>

text \<open>
  A benchmark with \<open>n\<close> objectives over five variables in \<open>[0, 9]\<close>, whose objectives
  record the problem id, and an optimizer that evaluates one batch and returns one
  candidate.
\<close>

definition example_benchmark :: "int \<Rightarrow> int \<Rightarrow> benchmark" where
  "example_benchmark n pid =
     \<lparr>search_space_n_var = 5, search_space_lb = [0, 0, 0, 0, 0], search_space_ub = [9, 9, 9, 9, 9],
      evaluator_n_objs = n,
      evaluate = (\<lambda>x true_eval. map (\<lambda>c. [of_int pid, of_int (sum_list c)]) x),
      calc_perf_indicator = (\<lambda>x name. of_int pid)\<rparr>"

definition example_minimize :: "problem \<Rightarrow> algorithm \<Rightarrow> nat \<Rightarrow> int \<Rightarrow> search" where
  "example_minimize problem algorithm n_gen r =
     Ask [[0, 0, 0, 0, 0]] (\<lambda>out_F. Result [[1, 2, 3, 4, 5]])"

section \<open>Properties of the settings and the factory\<close>

lemma choose_column_sum:
  "(\<Sum>i<Suc b. (i + k) choose k) = (Suc (b + k)) choose (Suc k)"
proof (induction b)
  case 0
  show ?case by simp
next
  case (Suc b)
  have "(\<Sum>i<Suc (Suc b). (i + k) choose k) = (\<Sum>i<Suc b. (i + k) choose k) + ((Suc b + k) choose k)"
    by simp
  also have "\<dots> = (Suc (b + k) choose Suc k) + (Suc (b + k) choose k)"
    using Suc.IH by simp
  also have "\<dots> = Suc (Suc b + k) choose Suc k"
    by simp
  finally show ?case .
qed

lemma length_das_dennis_recursion:
  "length (das_dennis_recursion p beta (Suc k)) = (beta + k) choose k"
proof (induction k arbitrary: beta)
  case 0
  show ?case by simp
next
  case (Suc k)
  have "length (das_dennis_recursion p beta (Suc (Suc k)))
        = (\<Sum>i\<leftarrow>[0..<Suc beta]. length (das_dennis_recursion p (beta - i) (Suc k)))"
    by (simp add: length_concat comp_def del: upt_Suc)
  also have "\<dots> = (\<Sum>i\<leftarrow>[0..<Suc beta]. (beta - i + k) choose k)"
    using Suc.IH by simp
  also have "\<dots> = (\<Sum>i<Suc beta. (beta - i + k) choose k)"
    by (simp add: interv_sum_list_conv_sum_set_nat atLeast0LessThan del: upt_Suc)
  also have "\<dots> = (\<Sum>i<Suc beta. (Suc beta - Suc i + k) choose k)"
    by simp
  also have "\<dots> = (\<Sum>i<Suc beta. (i + k) choose k)"
    by (rule sum.nat_diff_reindex [of "\<lambda>i. (i + k) choose k" "Suc beta"])
  also have "\<dots> = Suc (beta + k) choose Suc k"
    by (rule choose_column_sum)
  finally show ?case by simp
qed

lemma length_get_reference_directions:
  "0 < n_dim \<Longrightarrow> length (get_reference_directions n_dim p) = (p + nat n_dim - 1) choose (nat n_dim - 1)"
proof -
  assume "0 < n_dim"
  then obtain k where k: "nat n_dim = Suc k"
    by (metis Suc_pred zero_less_nat_eq)
  show ?thesis
    by (simp add: get_reference_directions_def k length_das_dennis_recursion)
qed

lemma choose_values: "(100::nat) choose 1 = 100" "(15::nat) choose 2 = 105" "(10::nat) choose 3 = 120"
  by code_simp+

lemma settings_2: "get_benchmark_settings 2 = Inr (100, 100, get_reference_directions 2 99)"
  by (simp add: get_benchmark_settings_def length_get_reference_directions choose_values)

lemma settings_3: "get_benchmark_settings 3 = Inr (105, 100, get_reference_directions 3 13)"
  by (simp add: get_benchmark_settings_def length_get_reference_directions choose_values)

lemma settings_4: "get_benchmark_settings 4 = Inr (120, 100, get_reference_directions 4 7)"
  by (simp add: get_benchmark_settings_def length_get_reference_directions choose_values)

lemma settings_unsupported:
  "n \<noteq> 2 \<Longrightarrow> n \<noteq> 3 \<Longrightarrow> n \<noteq> 4 \<Longrightarrow> get_benchmark_settings n = Inl UnsupportedObjectiveCount"
  by (simp add: get_benchmark_settings_def)

section \<open>Properties of the driver\<close>

subsection \<open>Evaluations asked for by the optimizer\<close>

lemma run_search_events:
  "e \<in> set (fst (run_search p sr)) \<Longrightarrow> \<exists>x. e = Evaluate x True"
proof (induction sr)
  case (Result X)
  then show ?case by simp
next
  case (Ask x k)
  obtain evs X where r: "run_search p (k (evaluate (benchmark p) x True)) = (evs, X)"
    by (cases "run_search p (k (evaluate (benchmark p) x True))")
  from Ask.prems r have "e = Evaluate x True \<or> e \<in> set evs"
    by (simp add: In1KMOPProblem_evaluate_def benchmark_evaluate_def)
  then show ?case
  proof
    assume "e = Evaluate x True" then show ?thesis by blast
  next
    assume "e \<in> set evs"
    with r have "e \<in> set (fst (run_search p (k (evaluate (benchmark p) x True))))" by simp
    then show ?thesis by (rule Ask.IH [OF rangeI])
  qed
qed

subsection \<open>One repeat\<close>

lemma run_body_unsupported_objectives:
  "get_benchmark_settings (evaluator_n_objs (I pid)) = Inl e \<Longrightarrow>
   run_body I M moea pid r = ([Instantiate pid], Inl e)"
  by (simp add: run_body_def In1KMOPProblem_def)

lemma run_body_unsupported_algorithm:
  "get_benchmark_settings (evaluator_n_objs (I pid)) = Inr (ps, ng, rd) \<Longrightarrow>
   select_algorithm moea ps rd = Inl e \<Longrightarrow>
   run_body I M moea pid r = ([Instantiate pid, Resolve pid ps ng, Print ps], Inl e)"
  by (simp add: run_body_def In1KMOPProblem_def)

lemma run_body_ok:
  "get_benchmark_settings (evaluator_n_objs (I pid)) = Inr (ps, ng, rd) \<Longrightarrow>
   select_algorithm moea ps rd = Inr alg \<Longrightarrow>
   run_search (In1KMOPProblem (I pid)) (M (In1KMOPProblem (I pid)) alg ng r) = (evs, X) \<Longrightarrow>
   run_body I M moea pid r =
     ([Instantiate pid, Resolve pid ps ng, Print ps, Build pid alg, Minimize pid r] @ evs
        @ [Evaluate X True, Indicator X ''hv''],
      Inr \<lparr>run = r, F = evaluate (I pid) X True, HV = calc_perf_indicator (I pid) X ''hv''\<rparr>)"
  by (simp add: run_body_def In1KMOPProblem_def benchmark_evaluate_def Let_def)

lemma run_body_cases:
  obtains (objectives) "run_body I M moea pid r = ([Instantiate pid], Inl UnsupportedObjectiveCount)"
      "get_benchmark_settings (evaluator_n_objs (I pid)) = Inl UnsupportedObjectiveCount"
  | (algorithm) ps ng rd where
      "get_benchmark_settings (evaluator_n_objs (I pid)) = Inr (ps, ng, rd)"
      "select_algorithm moea ps rd = Inl UnsupportedAlgorithm"
      "run_body I M moea pid r = ([Instantiate pid, Resolve pid ps ng, Print ps], Inl UnsupportedAlgorithm)"
  | (ok) ps ng rd alg evs X where
      "get_benchmark_settings (evaluator_n_objs (I pid)) = Inr (ps, ng, rd)"
      "select_algorithm moea ps rd = Inr alg"
      "run_search (In1KMOPProblem (I pid)) (M (In1KMOPProblem (I pid)) alg ng r) = (evs, X)"
      "run_body I M moea pid r =
        ([Instantiate pid, Resolve pid ps ng, Print ps, Build pid alg, Minimize pid r] @ evs
           @ [Evaluate X True, Indicator X ''hv''],
         Inr \<lparr>run = r, F = evaluate (I pid) X True, HV = calc_perf_indicator (I pid) X ''hv''\<rparr>)"
proof (cases "get_benchmark_settings (evaluator_n_objs (I pid))")
  case (Inl e)
  then have "e = UnsupportedObjectiveCount"
    by (auto simp: get_benchmark_settings_def Let_def split: if_splits)
  with Inl show ?thesis
    using objectives run_body_unsupported_objectives [of I pid e M moea r] by simp
next
  case (Inr t)
  obtain ps ng rd where t: "t = (ps, ng, rd)" by (cases t)
  show ?thesis
  proof (cases "select_algorithm moea ps rd")
    case (Inl e)
    then have "e = UnsupportedAlgorithm"
      by (auto simp: select_algorithm_def split: if_splits)
    with Inl Inr t show ?thesis
      using algorithm run_body_unsupported_algorithm [of I pid ps ng rd moea e M r] by simp
  next
    case alg: (Inr alg)
    obtain evs X where
      "run_search (In1KMOPProblem (I pid)) (M (In1KMOPProblem (I pid)) alg ng r) = (evs, X)"
      by (cases "run_search (In1KMOPProblem (I pid)) (M (In1KMOPProblem (I pid)) alg ng r)")
    with alg Inr t show ?thesis
      using ok run_body_ok [of I pid ps ng rd moea alg M r evs X] by simp
  qed
qed


lemma run_body_events:
  assumes "e \<in> set (fst (run_body I M moea pid r))"
  shows "e = Instantiate pid \<or> (\<exists>ps ng. e = Resolve pid ps ng) \<or> (\<exists>ps. e = Print ps)
         \<or> (\<exists>alg. e = Build pid alg \<and> (\<exists>t. get_benchmark_settings (evaluator_n_objs (I pid)) = Inr t))
         \<or> e = Minimize pid r \<or> (\<exists>x. e = Evaluate x True) \<or> (\<exists>x. e = Indicator x ''hv'')"
proof (cases rule: run_body_cases [of I M moea pid r])
  case objectives
  with assms show ?thesis by simp
next
  case (algorithm ps ng rd)
  with assms show ?thesis by auto
next
  case (ok ps ng rd alg evs X)
  from assms ok(4) have "e \<in> set [Instantiate pid, Resolve pid ps ng, Print ps, Build pid alg, Minimize pid r]
      \<or> e \<in> set evs \<or> e \<in> set [Evaluate X True, Indicator X ''hv'']"
    by auto
  moreover have "e \<in> set evs \<Longrightarrow> \<exists>x. e = Evaluate x True"
    using run_search_events [of e "In1KMOPProblem (I pid)" "M (In1KMOPProblem (I pid)) alg ng r"] ok(3)
    by simp
  ultimately show ?thesis using ok(1) by auto
qed

lemma filter_search_events:
  assumes "\<And>x b. \<not> P (Evaluate x b)"
  shows "filter P (fst (run_search p sr)) = []"
proof -
  have "\<forall>e\<in>set (fst (run_search p sr)). \<not> P e"
    using run_search_events [of _ p sr] assms by blast
  then show ?thesis by (simp add: filter_empty_conv)
qed

lemma run_body_counts:
  assumes "\<not> isl (snd (run_body I M moea pid r))"
  shows "count_events (is_Instantiate p) (fst (run_body I M moea pid r)) = (if p = pid then 1 else 0)"
    and "count_events (is_Resolve p) (fst (run_body I M moea pid r)) = (if p = pid then 1 else 0)"
    and "count_events (is_Build p) (fst (run_body I M moea pid r)) = (if p = pid then 1 else 0)"
    and "count_events (is_Minimize p) (fst (run_body I M moea pid r)) = (if p = pid then 1 else 0)"
proof -
  from assms obtain ps ng rd alg evs X where
    s: "run_search (In1KMOPProblem (I pid)) (M (In1KMOPProblem (I pid)) alg ng r) = (evs, X)"
    and b: "fst (run_body I M moea pid r) =
        [Instantiate pid, Resolve pid ps ng, Print ps, Build pid alg, Minimize pid r] @ evs
           @ [Evaluate X True, Indicator X ''hv'']"
    by (cases rule: run_body_cases [of I M moea pid r]) auto
  have evs: "filter P evs = []" if "\<And>x b. \<not> P (Evaluate x b)" for P
    using filter_search_events [of P "In1KMOPProblem (I pid)" "M (In1KMOPProblem (I pid)) alg ng r"] that s
    by simp
  show "count_events (is_Instantiate p) (fst (run_body I M moea pid r)) = (if p = pid then 1 else 0)"
    by (simp add: count_events_def b evs)
  show "count_events (is_Resolve p) (fst (run_body I M moea pid r)) = (if p = pid then 1 else 0)"
    by (simp add: count_events_def b evs)
  show "count_events (is_Build p) (fst (run_body I M moea pid r)) = (if p = pid then 1 else 0)"
    by (simp add: count_events_def b evs)
  show "count_events (is_Minimize p) (fst (run_body I M moea pid r)) = (if p = pid then 1 else 0)"
    by (simp add: count_events_def b evs)
qed

lemma run_body_fails_iff:
  "isl (snd (run_body I M moea pid r)) \<longleftrightarrow>
     isl (get_benchmark_settings (evaluator_n_objs (I pid))) \<or> moea \<notin> {''nsga2'', ''moead'', ''nsga3''}"
proof (cases rule: run_body_cases [of I M moea pid r])
  case objectives
  then show ?thesis by simp
next
  case (algorithm ps ng rd)
  then show ?thesis by (auto simp: select_algorithm_def split: if_splits)
next
  case (ok ps ng rd alg evs X)
  then show ?thesis by (auto simp: select_algorithm_def split: if_splits)
qed

subsection \<open>The loop over the repeats\<close>

lemma run_loop_trace_invariant:
  assumes "\<forall>e\<in>set (trace s). P e"
    and "\<forall>r\<in>set rs. \<forall>e\<in>set (fst (run_body I M moea pid r)). P e"
  shows "\<forall>e\<in>set (trace (fst (run_loop I M moea pid rs s))). P e"
  using assms
proof (induction rs arbitrary: s)
  case Nil
  then show ?case by simp
next
  case (Cons r rs)
  obtain evs res where b: "run_body I M moea pid r = (evs, res)"
    by (cases "run_body I M moea pid r")
  with Cons.prems have evs: "\<forall>e\<in>set evs. P e" by simp
  show ?case
  proof (cases res)
    case (Inl e)
    with b evs Cons.prems(1) show ?thesis by auto
  next
    case (Inr st)
    let ?s = "s\<lparr>experiment_stats := experiment_stats s @ [st], trace := trace s @ evs\<rparr>"
    have "\<forall>e\<in>set (trace ?s). P e" using evs Cons.prems(1) by auto
    moreover have "\<forall>r\<in>set rs. \<forall>e\<in>set (fst (run_body I M moea pid r)). P e"
      using Cons.prems(2) by simp
    ultimately have "\<forall>e\<in>set (trace (fst (run_loop I M moea pid rs ?s))). P e"
      by (rule Cons.IH)
    with b Inr show ?thesis by simp
  qed
qed

lemma run_loop_success:
  assumes "run_loop I M moea pid rs s = (s', None)"
  shows "files s' = files s"
    and "experiment_stats s' = experiment_stats s @ map (\<lambda>r. projr (snd (run_body I M moea pid r))) rs"
    and "trace s' = trace s @ concat (map (\<lambda>r. fst (run_body I M moea pid r)) rs)"
    and "\<forall>r\<in>set rs. \<not> isl (snd (run_body I M moea pid r))"
  using assms
proof (induction rs arbitrary: s)
  case Nil
  { case 1 then show ?case by simp }
  { case 2 then show ?case by simp }
  { case 3 then show ?case by simp }
  { case 4 then show ?case by simp }
next
  case (Cons r rs)
  { case 1 then show ?case using Cons.IH(1) by (auto split: prod.splits sum.splits) }
  { case 2 then show ?case using Cons.IH(2) by (auto split: prod.splits sum.splits) }
  { case 3 then show ?case using Cons.IH(3) by (auto split: prod.splits sum.splits) }
  { case 4 then show ?case using Cons.IH(4) by (auto split: prod.splits sum.splits) }
qed

lemma run_loop_succeeds:
  assumes "\<forall>r\<in>set rs. \<not> isl (snd (run_body I M moea pid r))"
  shows "snd (run_loop I M moea pid rs s) = None"
  using assms
proof (induction rs arbitrary: s)
  case Nil
  then show ?case by simp
next
  case (Cons r rs)
  then show ?case by (cases "run_body I M moea pid r") (auto split: sum.splits)
qed

subsection \<open>The loop over the problems\<close>

lemma run_loop_count:
  assumes "run_loop I M moea pid rs s = (s', None)"
    and "\<And>r. \<not> isl (snd (run_body I M moea pid r)) \<Longrightarrow>
            count_events Q (fst (run_body I M moea pid r)) = c"
  shows "count_events Q (trace s') = count_events Q (trace s) + c * length rs"
proof -
  have ok: "\<forall>r\<in>set rs. \<not> isl (snd (run_body I M moea pid r))"
    by (rule run_loop_success(4) [OF assms(1)])
  have "length (filter Q (concat (map (\<lambda>r. fst (run_body I M moea pid r)) rs))) = c * length rs"
    using ok
  proof (induction rs)
    case Nil
    then show ?case by simp
  next
    case (Cons r rs)
    then show ?case using assms(2) [of r] by (simp add: count_events_def)
  qed
  then show ?thesis
    by (simp add: run_loop_success(3) [OF assms(1)] count_events_def)
qed

lemma pid_loop_trace_invariant:
  assumes "\<forall>e\<in>set (trace s). P e"
    and "\<forall>pid\<in>set pids. \<forall>r. \<forall>e\<in>set (fst (run_body I M moea pid r)). P e"
    and "\<forall>name. P (Dump name)"
  shows "\<forall>e\<in>set (trace (fst (pid_loop I M moea runs pids s))). P e"
  using assms(1,2)
proof (induction pids arbitrary: s)
  case Nil
  then show ?case by simp
next
  case (Cons pid pids)
  obtain s' res where l: "run_loop I M moea pid [1..runs] s = (s', res)"
    by (cases "run_loop I M moea pid [1..runs] s")
  have "\<forall>e\<in>set (trace (fst (run_loop I M moea pid [1..runs] s))). P e"
    using Cons.prems by (intro run_loop_trace_invariant) auto
  with l have s': "\<forall>e\<in>set (trace s'). P e" by simp
  show ?case
  proof (cases res)
    case (Some e)
    with l s' show ?thesis by simp
  next
    case None
    let ?s = "s'\<lparr>files := (files s')(file_name pid moea \<mapsto> experiment_stats s'),
                 trace := trace s' @ [Dump (file_name pid moea)]\<rparr>"
    have "\<forall>e\<in>set (trace ?s). P e" using s' assms(3) by simp
    moreover have "\<forall>pid\<in>set pids. \<forall>r. \<forall>e\<in>set (fst (run_body I M moea pid r)). P e"
      using Cons.prems(2) by simp
    ultimately have "\<forall>e\<in>set (trace (fst (pid_loop I M moea runs pids ?s))). P e"
      by (rule Cons.IH)
    with l None show ?thesis by simp
  qed
qed

lemma pid_loop_count:
  assumes "pid_loop I M moea runs pids s = (s', None)"
    and "\<And>pid r. \<not> isl (snd (run_body I M moea pid r)) \<Longrightarrow>
            count_events Q (fst (run_body I M moea pid r)) = (if p = pid then 1 else 0)"
    and "\<And>name. \<not> Q (Dump name)"
  shows "count_events Q (trace s') = count_events Q (trace s) + count_list pids p * length [1..runs]"
  using assms(1)
proof (induction pids arbitrary: s)
  case Nil
  then show ?case by simp
next
  case (Cons pid pids)
  from Cons.prems obtain s1 where l: "run_loop I M moea pid [1..runs] s = (s1, None)"
    by (cases "run_loop I M moea pid [1..runs] s") (auto split: option.splits)
  let ?s = "s1\<lparr>files := (files s1)(file_name pid moea \<mapsto> experiment_stats s1),
               trace := trace s1 @ [Dump (file_name pid moea)]\<rparr>"
  from Cons.prems l have r: "pid_loop I M moea runs pids ?s = (s', None)" by simp
  have "count_events Q (trace s1) = count_events Q (trace s) + (if p = pid then 1 else 0) * length [1..runs]"
    using l assms(2) by (rule run_loop_count)
  moreover have "count_events Q (trace ?s) = count_events Q (trace s1)"
    using assms(3) by (simp add: count_events_def)
  moreover have "count_events Q (trace s') = count_events Q (trace ?s) + count_list pids p * length [1..runs]"
    using r by (rule Cons.IH)
  ultimately show ?case by simp
qed

lemma pid_loop_stats_length:
  assumes "pid_loop I M moea runs pids s = (s', None)"
  shows "length (experiment_stats s') = length (experiment_stats s) + length pids * length [1..runs]"
  using assms
proof (induction pids arbitrary: s)
  case Nil
  then show ?case by simp
next
  case (Cons pid pids)
  from Cons.prems obtain s1 where l: "run_loop I M moea pid [1..runs] s = (s1, None)"
    by (cases "run_loop I M moea pid [1..runs] s") (auto split: option.splits)
  let ?s = "s1\<lparr>files := (files s1)(file_name pid moea \<mapsto> experiment_stats s1),
               trace := trace s1 @ [Dump (file_name pid moea)]\<rparr>"
  from Cons.prems l have r: "pid_loop I M moea runs pids ?s = (s', None)" by simp
  have "length (experiment_stats s') = length (experiment_stats ?s) + length pids * length [1..runs]"
    using r by (rule Cons.IH)
  then show ?case using run_loop_success(2) [OF l] by simp
qed

lemma pid_loop_succeeds:
  assumes "\<forall>pid\<in>set pids. \<forall>r. \<not> isl (snd (run_body I M moea pid r))"
  shows "snd (pid_loop I M moea runs pids s) = None"
  using assms
proof (induction pids arbitrary: s)
  case Nil
  then show ?case by simp
next
  case (Cons pid pids)
  have "snd (run_loop I M moea pid [1..runs] s) = None"
    using Cons.prems by (intro run_loop_succeeds) simp
  then obtain s1 where l: "run_loop I M moea pid [1..runs] s = (s1, None)"
    by (cases "run_loop I M moea pid [1..runs] s") simp
  then show ?case using Cons by simp
qed

lemma main_first_failure:
  assumes "1 \<le> runs" and "run_body I M moea 1 1 = (evs, Inl e)"
  shows "main I M moea runs = (\<lparr>experiment_stats = [], files = Map.empty, trace = evs\<rparr>, Some e)"
proof -
  have "[1..runs] = 1 # [2..runs]" using assms(1) by (simp add: upto_rec1)
  moreover have "[1..9::int] = 1 # [2..9]" by (simp add: upto_rec1)
  ultimately show ?thesis using assms(2) by (simp add: main_def)
qed

lemma count_list_distinct: "distinct xs \<Longrightarrow> x \<in> set xs \<Longrightarrow> count_list xs x = 1"
  by (induction xs) auto

lemma count_list_pids: "p \<in> {1..9} \<Longrightarrow> count_list [1..9] p = 1"
  by (rule count_list_distinct) simp_all

lemma main_counts:
  assumes "snd (main I M moea runs) = None" and "1 \<le> pid" and "pid \<le> 9"
  shows "count_events (is_Instantiate pid) (trace (fst (main I M moea runs))) = nat runs"
    and "count_events (is_Resolve pid) (trace (fst (main I M moea runs))) = nat runs"
    and "count_events (is_Build pid) (trace (fst (main I M moea runs))) = nat runs"
    and "count_events (is_Minimize pid) (trace (fst (main I M moea runs))) = nat runs"
proof -
  let ?s0 = "\<lparr>experiment_stats = [], files = Map.empty, trace = []\<rparr>"
  obtain s' where m: "pid_loop I M moea runs [1..9] ?s0 = (s', None)"
    using assms(1) unfolding main_def by (cases "pid_loop I M moea runs [1..9] ?s0") simp
  have c: "count_list [1..9] pid = 1"
    using assms(2,3) by (intro count_list_pids) simp
  have *: "count_events Q (trace s') = nat runs"
    if "\<And>p r. \<not> isl (snd (run_body I M moea p r)) \<Longrightarrow>
            count_events Q (fst (run_body I M moea p r)) = (if pid = p then 1 else 0)"
      and "\<And>name. \<not> Q (Dump name)" for Q
    using pid_loop_count [OF m that] c by (simp add: count_events_def)
  show "count_events (is_Instantiate pid) (trace (fst (main I M moea runs))) = nat runs"
    unfolding main_def m by (simp add: * run_body_counts)
  show "count_events (is_Resolve pid) (trace (fst (main I M moea runs))) = nat runs"
    unfolding main_def m by (simp add: * run_body_counts)
  show "count_events (is_Build pid) (trace (fst (main I M moea runs))) = nat runs"
    unfolding main_def m by (simp add: * run_body_counts)
  show "count_events (is_Minimize pid) (trace (fst (main I M moea runs))) = nat runs"
    unfolding main_def m by (simp add: * run_body_counts)
qed

subsection \<open>The example environment\<close>

lemma str_int_digit: "0 \<le> i \<Longrightarrow> i < 10 \<Longrightarrow> str_int i = [digit (nat i)]"
  by (simp add: str_int_def)

lemma file_names:
  "file_name 1 m = ''in1kmop1_'' @ m @ ''.json''"
  "file_name 2 m = ''in1kmop2_'' @ m @ ''.json''"
  "file_name 3 m = ''in1kmop3_'' @ m @ ''.json''"
  "file_name 4 m = ''in1kmop4_'' @ m @ ''.json''"
  "file_name 5 m = ''in1kmop5_'' @ m @ ''.json''"
  "file_name 6 m = ''in1kmop6_'' @ m @ ''.json''"
  "file_name 7 m = ''in1kmop7_'' @ m @ ''.json''"
  "file_name 8 m = ''in1kmop8_'' @ m @ ''.json''"
  "file_name 9 m = ''in1kmop9_'' @ m @ ''.json''"
  by (simp_all add: file_name_def str_int_digit digit_def)

lemma pids: "[1..9::int] = [1, 2, 3, 4, 5, 6, 7, 8, 9]"
  by (simp add: upto_rec1)

lemma example_body:
  "run_body (example_benchmark 2) example_minimize ''nsga2'' pid r =
     ([Instantiate pid, Resolve pid 100 100, Print 100, Build pid (nsga2 100 None None None None),
       Minimize pid r, Evaluate [[0, 0, 0, 0, 0]] True, Evaluate [[1, 2, 3, 4, 5]] True,
       Indicator [[1, 2, 3, 4, 5]] ''hv''],
      Inr \<lparr>run = r, F = [[of_int pid, 15]], HV = of_int pid\<rparr>)"
  by (simp add: run_body_def In1KMOPProblem_def example_benchmark_def example_minimize_def settings_2
      select_algorithm_def In1KMOPProblem_evaluate_def benchmark_evaluate_def Let_def)

lemma example_body_unknown:
  "run_body (example_benchmark 2) example_minimize ''spea2'' pid r =
     ([Instantiate pid, Resolve pid 100 100, Print 100], Inl UnsupportedAlgorithm)"
  by (simp add: run_body_def In1KMOPProblem_def example_benchmark_def settings_2
      select_algorithm_def Let_def)

lemma example_settings: "get_benchmark_settings (evaluator_n_objs (example_benchmark 2 pid)) =
    Inr (100, 100, get_reference_directions 2 99)"
  by (simp add: example_benchmark_def settings_2)

lemma example_succeeds:
  "moea \<in> {''nsga2'', ''moead'', ''nsga3''} \<Longrightarrow>
   snd (main (example_benchmark 2) example_minimize moea runs) = None"
  unfolding main_def
  by (rule pid_loop_succeeds) (simp add: run_body_fails_iff example_settings)

section \<open>The claims\<close>

text \<open>
  C3. For the objective counts 2, 3 and 4 the settings are resolved, the generation budget
  is 100, and the population size is the number of reference directions of the lattice:
  100 directions for 2 objectives (99 partitions), 105 for 3 objectives (13 partitions)
  and 120 for 4 objectives (7 partitions).
\<close>

theorem settings_resolved_for_supported_counts:
  "get_benchmark_settings 2 = Inr (100, 100, get_reference_directions 2 99)
   \<and> length (get_reference_directions 2 99) = 100
   \<and> get_benchmark_settings 3 = Inr (105, 100, get_reference_directions 3 13)
   \<and> length (get_reference_directions 3 13) = 105
   \<and> get_benchmark_settings 4 = Inr (120, 100, get_reference_directions 4 7)
   \<and> length (get_reference_directions 4 7) = 120"
  by (simp add: settings_2 settings_3 settings_4 length_get_reference_directions choose_values)

text \<open>
  C6. Called with their defaults, the three factory functions build: for NSGA-II and
  NSGA-III a crossover of probability 1.0 and distribution index 30, for MOEA/D one of
  probability 1.0 and distribution index 20; in all three a mutation of probability 0.9
  and distribution index 20; MOEA/D with neighbourhood size 20 and neighbour-mating
  probability 0.9 and without duplicate elimination, the other two with it. An argument
  that is given overrides its default.
\<close>

theorem factory_defaults:
  "nsga2 pop_size None None None None =
     NSGA2 pop_size IntegerRandomSampling (SBX 1.0 30.0 RoundingRepair Vtype_int)
       (PM 0.9 20.0 RoundingRepair Vtype_int) True
   \<and> moead ref_dirs None None None None None None =
     MOEAD ref_dirs 20 0.9 IntegerRandomSampling (SBX 1.0 20.0 RoundingRepair Vtype_int)
       (PM 0.9 20.0 RoundingRepair Vtype_int)
   \<and> nsga3 pop_size ref_dirs None None None None =
     NSGA3 pop_size ref_dirs IntegerRandomSampling (SBX 1.0 30.0 RoundingRepair Vtype_int)
       (PM 0.9 20.0 RoundingRepair Vtype_int) True
   \<and> eliminate_duplicates (nsga2 pop_size None None None None) = True
   \<and> eliminate_duplicates (moead ref_dirs None None None None None None) = False
   \<and> eliminate_duplicates (nsga3 pop_size ref_dirs None None None None) = True
   \<and> get_genetic_operator None None None None =
     (IntegerRandomSampling, SBX 1.0 30.0 RoundingRepair Vtype_int, PM 0.9 20.0 RoundingRepair Vtype_int)
   \<and> alg_crossover (nsga2 pop_size (Some cp) (Some ce) (Some mp) (Some me)) = SBX cp ce RoundingRepair Vtype_int
   \<and> alg_mutation (nsga2 pop_size (Some cp) (Some ce) (Some mp) (Some me)) = PM mp me RoundingRepair Vtype_int
   \<and> moead ref_dirs (Some cp) (Some ce) (Some mp) (Some me) (Some ns) (Some pn) =
     MOEAD ref_dirs ns pn IntegerRandomSampling (SBX cp ce RoundingRepair Vtype_int)
       (PM mp me RoundingRepair Vtype_int)
   \<and> alg_crossover (nsga3 pop_size ref_dirs (Some cp) (Some ce) (Some mp) (Some me)) = SBX cp ce RoundingRepair Vtype_int
   \<and> alg_mutation (nsga3 pop_size ref_dirs (Some cp) (Some ce) (Some mp) (Some me)) = PM mp me RoundingRepair Vtype_int"
  by (simp add: nsga2_def moead_def nsga3_def get_genetic_operator_def dflt_def)

text \<open>
  C9. Every call of the benchmark's \<^verbatim>\<open>evaluate\<close> in a run of the program, those the
  optimizer asks for during its search as well as the final one of each repeat, passes
  \<^verbatim>\<open>true_eval=True\<close>: an evaluation event of the trace carries the flag \<open>True\<close>.
\<close>

theorem every_evaluation_is_authoritative:
  "Evaluate x true_eval \<in> set (trace (fst (main in1kmop minimize moea runs))) \<Longrightarrow> true_eval"
proof -
  assume a: "Evaluate x true_eval \<in> set (trace (fst (main in1kmop minimize moea runs)))"
  let ?P = "\<lambda>e. \<forall>y. e \<noteq> Evaluate y False"
  have "\<forall>e\<in>set (trace (fst (pid_loop in1kmop minimize moea runs [1..9]
            \<lparr>experiment_stats = [], files = Map.empty, trace = []\<rparr>))). ?P e"
  proof (rule pid_loop_trace_invariant)
    show "\<forall>e\<in>set (trace \<lparr>experiment_stats = [], files = Map.empty, trace = []\<rparr>). ?P e"
      by simp
    show "\<forall>pid\<in>set [1..9]. \<forall>r. \<forall>e\<in>set (fst (run_body in1kmop minimize moea pid r)). ?P e"
      using run_body_events [of _ in1kmop minimize moea] by fastforce
    show "\<forall>name. ?P (Dump name)"
      by simp
  qed
  with a have "Evaluate x true_eval \<noteq> Evaluate x False"
    unfolding main_def by blast
  then show true_eval by simp
qed

theorem every_evaluation_is_authoritative_witness:
  "Evaluate [[0, 0, 0, 0, 0]] True \<in> set (trace (fst (main (example_benchmark 2) example_minimize ''nsga2'' 1)))
   \<and> Evaluate [[1, 2, 3, 4, 5]] True \<in> set (trace (fst (main (example_benchmark 2) example_minimize ''nsga2'' 1)))
   \<and> Evaluate [[0, 0, 0, 0, 0]] False \<notin> set (trace (fst (main (example_benchmark 2) example_minimize ''nsga2'' 1)))"
proof -
  have h: "Evaluate [[0, 0, 0, 0, 0]] True \<in> set (trace (fst (main (example_benchmark 2) example_minimize ''nsga2'' 1)))"
    by (simp add: main_def pids example_body upto_rec1)
  have h2: "Evaluate [[1, 2, 3, 4, 5]] True \<in> set (trace (fst (main (example_benchmark 2) example_minimize ''nsga2'' 1)))"
    by (simp add: main_def pids example_body upto_rec1)
  show ?thesis
    using h h2 every_evaluation_is_authoritative [OF h]
      every_evaluation_is_authoritative [of "[[0, 0, 0, 0, 0]]" False "example_benchmark 2" example_minimize "''nsga2''" 1]
    by blast
qed

text \<open>
  C4. An objective count other than 2, 3 and 4 makes the settings resolution raise. In
  the driver the exception comes in the first repeat of the problem, right after the
  problem is instantiated, and ends the loop; no optimizer is ever built for that problem
  in a run of the program.
\<close>

theorem unsupported_objective_count_fails_before_any_optimizer:
  assumes "n \<noteq> 2" and "n \<noteq> 3" and "n \<noteq> 4" and "evaluator_n_objs (in1kmop pid) = n"
  shows "get_benchmark_settings n = Inl UnsupportedObjectiveCount
    \<and> run_loop in1kmop minimize moea pid (r # rs) s =
        (s\<lparr>trace := trace s @ [Instantiate pid]\<rparr>, Some UnsupportedObjectiveCount)
    \<and> Build pid alg \<notin> set (trace (fst (main in1kmop minimize moea runs)))"
proof -
  have g: "get_benchmark_settings n = Inl UnsupportedObjectiveCount"
    using assms(1-3) by (rule settings_unsupported)
  have b: "run_body in1kmop minimize moea pid r' = ([Instantiate pid], Inl UnsupportedObjectiveCount)" for r'
    using g assms(4) by (simp add: run_body_unsupported_objectives)
  have l: "run_loop in1kmop minimize moea pid (r # rs) s =
        (s\<lparr>trace := trace s @ [Instantiate pid]\<rparr>, Some UnsupportedObjectiveCount)"
    by (simp add: b)
  let ?P = "\<lambda>e. e \<noteq> Build pid alg"
  have "\<forall>e\<in>set (trace (fst (pid_loop in1kmop minimize moea runs [1..9]
            \<lparr>experiment_stats = [], files = Map.empty, trace = []\<rparr>))). ?P e"
  proof (rule pid_loop_trace_invariant)
    show "\<forall>e\<in>set (trace \<lparr>experiment_stats = [], files = Map.empty, trace = []\<rparr>). ?P e"
      by simp
    show "\<forall>p\<in>set [1..9]. \<forall>r. \<forall>e\<in>set (fst (run_body in1kmop minimize moea p r)). ?P e"
    proof (intro ballI allI)
      fix p r' e
      assume e: "e \<in> set (fst (run_body in1kmop minimize moea p r'))"
      show "e \<noteq> Build pid alg"
      proof
        assume "e = Build pid alg"
        with run_body_events [OF e] have "p = pid"
          and "\<exists>t. get_benchmark_settings (evaluator_n_objs (in1kmop p)) = Inr t"
          by auto
        with g assms(4) show False by simp
      qed
    qed
    show "\<forall>name. ?P (Dump name)"
      by simp
  qed
  then have "Build pid alg \<notin> set (trace (fst (main in1kmop minimize moea runs)))"
    unfolding main_def by blast
  with g l show ?thesis by simp
qed

theorem unsupported_objective_count_fails_before_any_optimizer_witness:
  "(5::int) \<noteq> 2 \<and> (5::int) \<noteq> 3 \<and> (5::int) \<noteq> 4 \<and> evaluator_n_objs (example_benchmark 5 1) = 5
   \<and> get_benchmark_settings 5 = Inl UnsupportedObjectiveCount
   \<and> run_loop (example_benchmark 5) example_minimize ''nsga2'' 1 [1, 2]
        \<lparr>experiment_stats = [], files = Map.empty, trace = []\<rparr> =
        (\<lparr>experiment_stats = [], files = Map.empty, trace = [Instantiate 1]\<rparr>, Some UnsupportedObjectiveCount)
   \<and> Build 1 (nsga2 100 None None None None)
        \<notin> set (trace (fst (main (example_benchmark 5) example_minimize ''nsga2'' 2)))"
proof -
  have h: "evaluator_n_objs (example_benchmark 5 1) = 5"
    by (simp add: example_benchmark_def)
  show ?thesis
    using h unsupported_objective_count_fails_before_any_optimizer
      [of 5 "example_benchmark 5" 1 example_minimize "''nsga2''" 1 "[2]"
          "\<lparr>experiment_stats = [], files = Map.empty, trace = []\<rparr>" "nsga2 100 None None None None" 2]
    by simp
qed

text \<open>
  C5, as amended. When the family is none of the three names, at least one repeat is asked
  for and the first problem has a supported objective count, the program ends in the first
  repeat of the first problem with the exception of line 141: the problem has been
  instantiated and its settings resolved and printed, and nothing else has happened (no
  optimizer built, no evaluation, no statistics, no file).
\<close>

theorem unknown_algorithm_fails_in_first_repeat:
  assumes "moea \<noteq> ''nsga2''" and "moea \<noteq> ''moead''" and "moea \<noteq> ''nsga3''"
    and "1 \<le> runs"
    and "get_benchmark_settings (evaluator_n_objs (in1kmop 1)) = Inr (pop_size, n_gen, ref_dirs)"
  shows "main in1kmop minimize moea runs =
    (\<lparr>experiment_stats = [], files = Map.empty,
      trace = [Instantiate 1, Resolve 1 pop_size n_gen, Print pop_size]\<rparr>, Some UnsupportedAlgorithm)"
proof -
  have "select_algorithm moea pop_size ref_dirs = Inl UnsupportedAlgorithm"
    using assms(1-3) by (simp add: select_algorithm_def)
  with assms(5) have "run_body in1kmop minimize moea 1 1 =
      ([Instantiate 1, Resolve 1 pop_size n_gen, Print pop_size], Inl UnsupportedAlgorithm)"
    by (rule run_body_unsupported_algorithm)
  with assms(4) show ?thesis by (rule main_first_failure)
qed

theorem unknown_algorithm_fails_in_first_repeat_witness:
  "''pso'' \<noteq> ''nsga2'' \<and> ''pso'' \<noteq> ''moead'' \<and> ''pso'' \<noteq> ''nsga3'' \<and> (1::int) \<le> 3
   \<and> get_benchmark_settings (evaluator_n_objs (example_benchmark 2 1)) =
        Inr (100, 100, get_reference_directions 2 99)
   \<and> main (example_benchmark 2) example_minimize ''pso'' 3 =
    (\<lparr>experiment_stats = [], files = Map.empty,
      trace = [Instantiate 1, Resolve 1 100 100, Print 100]\<rparr>, Some UnsupportedAlgorithm)"
proof -
  have h: "get_benchmark_settings (evaluator_n_objs (example_benchmark 2 1)) =
        Inr (100, 100, get_reference_directions 2 99)"
    by (rule example_settings)
  have "main (example_benchmark 2) example_minimize ''pso'' 3 =
    (\<lparr>experiment_stats = [], files = Map.empty,
      trace = [Instantiate 1, Resolve 1 100 100, Print 100]\<rparr>, Some UnsupportedAlgorithm)"
    using h unknown_algorithm_fails_in_first_repeat
      [of "''pso''" 3 "example_benchmark 2" 100 100 "get_reference_directions 2 99" example_minimize]
    by simp
  with h show ?thesis by simp
qed

text \<open>
  C5 as stated fails. With an unknown family and one repeat the first problem is
  instantiated and its settings are resolved before the exception; with no repeat
  (\<^verbatim>\<open>--runs 0\<close>) the family is never looked at and the program ends without an
  exception; and when the first problem has five objectives the exception is the one of
  the settings.
\<close>

theorem unknown_algorithm_constructs_nothing_counterexample:
  "Instantiate 1 \<in> set (trace (fst (main (example_benchmark 2) example_minimize ''spea2'' 1)))
   \<and> Resolve 1 100 100 \<in> set (trace (fst (main (example_benchmark 2) example_minimize ''spea2'' 1)))
   \<and> snd (main (example_benchmark 2) example_minimize ''spea2'' 1) = Some UnsupportedAlgorithm
   \<and> snd (main (example_benchmark 2) example_minimize ''spea2'' 0) = None
   \<and> snd (main (example_benchmark 5) example_minimize ''spea2'' 1) = Some UnsupportedObjectiveCount"
proof -
  have a: "main (example_benchmark 2) example_minimize ''spea2'' 1 =
    (\<lparr>experiment_stats = [], files = Map.empty,
      trace = [Instantiate 1, Resolve 1 100 100, Print 100]\<rparr>, Some UnsupportedAlgorithm)"
    by (rule main_first_failure) (simp_all add: example_body_unknown)
  have b: "snd (main (example_benchmark 2) example_minimize ''spea2'' 0) = None"
    by (simp add: main_def pids)
  have "run_body (example_benchmark 5) example_minimize ''spea2'' 1 1 =
      ([Instantiate 1], Inl UnsupportedObjectiveCount)"
    by (rule run_body_unsupported_objectives) (simp add: example_benchmark_def settings_unsupported)
  then have c: "main (example_benchmark 5) example_minimize ''spea2'' 1 =
    (\<lparr>experiment_stats = [], files = Map.empty, trace = [Instantiate 1]\<rparr>, Some UnsupportedObjectiveCount)"
    by (intro main_first_failure) simp_all
  show ?thesis by (simp add: a b c)
qed

text \<open>
  C8, as amended. In a run of the program that ends without an exception, every problem
  id from 1 to 9 is instantiated once per repeat, its settings are resolved once per
  repeat, and one optimizer is built and run per repeat: each of the four counts is the
  number of repeats.
\<close>

theorem one_instance_settings_and_optimizer_per_repeat:
  assumes "snd (main in1kmop minimize moea runs) = None" and "1 \<le> pid" and "pid \<le> 9"
  shows "count_events (is_Instantiate pid) (trace (fst (main in1kmop minimize moea runs))) = nat runs
    \<and> count_events (is_Resolve pid) (trace (fst (main in1kmop minimize moea runs))) = nat runs
    \<and> count_events (is_Build pid) (trace (fst (main in1kmop minimize moea runs))) = nat runs
    \<and> count_events (is_Minimize pid) (trace (fst (main in1kmop minimize moea runs))) = nat runs"
  using main_counts [OF assms] by simp

theorem one_instance_settings_and_optimizer_per_repeat_witness:
  "snd (main (example_benchmark 2) example_minimize ''nsga3'' 3) = None \<and> (1::int) \<le> 4 \<and> (4::int) \<le> 9
   \<and> count_events (is_Instantiate 4) (trace (fst (main (example_benchmark 2) example_minimize ''nsga3'' 3))) = 3
   \<and> count_events (is_Resolve 4) (trace (fst (main (example_benchmark 2) example_minimize ''nsga3'' 3))) = 3
   \<and> count_events (is_Build 4) (trace (fst (main (example_benchmark 2) example_minimize ''nsga3'' 3))) = 3
   \<and> count_events (is_Minimize 4) (trace (fst (main (example_benchmark 2) example_minimize ''nsga3'' 3))) = 3"
proof -
  have h: "snd (main (example_benchmark 2) example_minimize ''nsga3'' 3) = None"
    by (rule example_succeeds) simp
  show ?thesis
    using h one_instance_settings_and_optimizer_per_repeat [OF h, of 4] by simp
qed

text \<open>
  C8 as stated fails: with two repeats, the first problem is instantiated twice and its
  settings are resolved twice in a run that ends without an exception.
\<close>

theorem instantiated_once_per_problem_counterexample:
  "snd (main (example_benchmark 2) example_minimize ''nsga2'' 2) = None
   \<and> count_events (is_Instantiate 1) (trace (fst (main (example_benchmark 2) example_minimize ''nsga2'' 2))) = 2
   \<and> count_events (is_Resolve 1) (trace (fst (main (example_benchmark 2) example_minimize ''nsga2'' 2))) = 2"
proof -
  have h: "snd (main (example_benchmark 2) example_minimize ''nsga2'' 2) = None"
    by (rule example_succeeds) simp
  show ?thesis
    using h main_counts(1,2) [OF h, of 1] by simp
qed

text \<open>
  C1: the program at \<^verbatim>\<open>--moea nsga2 --runs 1\<close> on the example suite. The list
  \<^verbatim>\<open>experiment_stats\<close> is created once, before the loop over the problems (line 123),
  so the file written for problem 2 holds two entries for one repeat: the run of
  problem 1 followed by the run of problem 2.
\<close>

theorem report_of_second_problem_holds_first_problem_run:
  "files (fst (main (example_benchmark 2) example_minimize ''nsga2'' 1)) ''in1kmop2_nsga2.json'' =
     Some [\<lparr>run = 1, F = [[1, 15]], HV = 1\<rparr>, \<lparr>run = 1, F = [[2, 15]], HV = 2\<rparr>]
   \<and> snd (main (example_benchmark 2) example_minimize ''nsga2'' 1) = None"
  by (simp add: main_def pids example_body file_names upto_rec1)

text \<open>
  C2: the program at \<^verbatim>\<open>--moea nsga2 --runs 1\<close> on the example suite. The list dumped
  for problem 1 had one entry; it is the list the later repeats append to, and at the end
  of the program it has nine entries, the second being the run of problem 2.
\<close>

theorem dumped_list_is_appended_to_afterwards:
  "files (fst (main (example_benchmark 2) example_minimize ''nsga2'' 1)) ''in1kmop1_nsga2.json'' =
     Some [\<lparr>run = 1, F = [[1, 15]], HV = 1\<rparr>]
   \<and> take 2 (experiment_stats (fst (main (example_benchmark 2) example_minimize ''nsga2'' 1))) =
     [\<lparr>run = 1, F = [[1, 15]], HV = 1\<rparr>, \<lparr>run = 1, F = [[2, 15]], HV = 2\<rparr>]
   \<and> length (experiment_stats (fst (main (example_benchmark 2) example_minimize ''nsga2'' 1))) = 9"
  by (simp add: main_def pids example_body file_names upto_rec1)

end
